theory Spec2Isabelle
  imports Main
begin

section \<open>The clipboard engine of file_operations.py\<close>

text \<open>
  A shallow embedding of the class \<open>FileOperations\<close> (copy, cut, paste, the conflict
  prompt, the unique-name search, clear) and of the command dispatch of \<open>main\<close>.
  The companion script rhel_upgrade_automation.py is sequencing glue around an
  external tool and is not modelled.

  What the program takes from the Python library is modelled as follows.
  \<^item> \<open>pathlib\<close>: a path is a flag (anchored at the root or not) and its components;
    POSIX flavour, no symbolic links and no resolution of \<open>..\<close>.
  \<^item> the file system: a current directory and a finite table from absolute paths
    to nodes; \<open>exists\<close> and \<open>is_dir\<close> look the table up.
  \<^item> \<open>shutil\<close> and \<open>unlink\<close>: parameters of the model (record \<open>shutil\<close>); each
    call returns the file system it leaves and the exception it raised, if any.
    The theorems hold for every such behaviour.
  \<^item> standard input: a finite list of events (a line, an interrupt, an error);
    reading past the end is end-of-input, which \<open>input\<close> raises as \<open>EOFError\<close>.
  An interrupt is modelled where the program handles one, while \<open>input\<close> waits at
  the prompt. \<open>exists\<close> and \<open>is_dir\<close> do not raise, so the outer handlers of \<open>copy\<close>,
  \<open>cut\<close> and \<open>paste\<close> (\<open>except Exception: return False\<close>) have no branch of their
  own. Printing is not modelled.
\<close>

subsection \<open>Paths\<close>

datatype path = Path (anchored: bool) (parts: "string list")

text \<open>Splitting a path string at the separator.\<close>

fun split_sep :: "string \<Rightarrow> string list" where
  "split_sep [] = [[]]"
| "split_sep (c # cs) =
     (if c = CHR ''/'' then [] # split_sep cs
      else (case split_sep cs of [] \<Rightarrow> [[c]] | x # xs \<Rightarrow> (c # x) # xs))"

text \<open>
  \<open>Path(path_str)\<close>: empty components and \<open>.\<close> components are dropped, \<open>..\<close> is
  kept. (A string starting with exactly two slashes keeps a root of its own in
  pathlib; here it is the ordinary root.)
\<close>

definition Path_of :: "string \<Rightarrow> path" where
  "Path_of s =
     Path (s \<noteq> [] \<and> hd s = CHR ''/'')
          (filter (\<lambda>c. c \<noteq> [] \<and> c \<noteq> ''.'') (split_sep s))"

text \<open>\<open>path.name\<close>: the last component, the empty string when there is none.\<close>

definition name :: "path \<Rightarrow> string" where
  "name p = (if parts p = [] then [] else last (parts p))"

text \<open>\<open>path.parent\<close>: the path without its last component; a path without components is its own parent.\<close>

definition parent :: "path \<Rightarrow> path" where
  "parent p = Path (anchored p) (butlast (parts p))"

text \<open>
  \<open>path / name\<close> for a single component, the only way the program uses the
  operator: \<open>dest_path / source_path.name\<close> and \<open>parent / new_name\<close>. An empty
  component leaves the path as it is.
\<close>

definition joinpath :: "path \<Rightarrow> string \<Rightarrow> path" where
  "joinpath p s = (if s = [] then p else Path (anchored p) (parts p @ [s]))"

text \<open>
  \<open>path.suffix\<close> and \<open>path.stem\<close>, on the name: the split is at the last dot, unless
  that dot is the first or the last character of the name.
\<close>

fun rfind_dot :: "string \<Rightarrow> nat option" where
  "rfind_dot [] = None"
| "rfind_dot (c # cs) =
     (case rfind_dot cs of
        Some i \<Rightarrow> Some (Suc i)
      | None \<Rightarrow> (if c = CHR ''.'' then Some 0 else None))"

definition suffix :: "string \<Rightarrow> string" where
  "suffix nm =
     (case rfind_dot nm of
        None \<Rightarrow> []
      | Some i \<Rightarrow> (if 0 < i \<and> i < length nm - 1 then drop i nm else []))"

definition stem :: "string \<Rightarrow> string" where
  "stem nm =
     (case rfind_dot nm of
        None \<Rightarrow> nm
      | Some i \<Rightarrow> (if 0 < i \<and> i < length nm - 1 then take i nm else nm))"

subsection \<open>The file system\<close>

datatype node = File string | Dir

record filesystem =
  cwd :: path
  entries :: "(path \<times> node) list"

text \<open>\<open>path.absolute()\<close>: an anchored path is itself, another one is put under the current directory.\<close>

definition absolute :: "filesystem \<Rightarrow> path \<Rightarrow> path" where
  "absolute f p = (if anchored p then p else Path True (parts (cwd f) @ parts p))"

definition lookup :: "filesystem \<Rightarrow> path \<Rightarrow> node option" where
  "lookup f p = map_of (entries f) (absolute f p)"

definition exists :: "filesystem \<Rightarrow> path \<Rightarrow> bool" where
  "exists f p = (lookup f p \<noteq> None)"

definition is_dir :: "filesystem \<Rightarrow> path \<Rightarrow> bool" where
  "is_dir f p = (lookup f p = Some Dir)"

subsection \<open>Decimal numerals\<close>

definition digit :: "nat \<Rightarrow> char" where
  "digit d = char_of (48 + d)"

function str_of_nat :: "nat \<Rightarrow> string" where
  "str_of_nat n = (if n < 10 then [digit n] else str_of_nat (n div 10) @ [digit (n mod 10)])"
  by pat_completeness auto
termination
  by (relation "measure (\<lambda>n. n)") auto

declare str_of_nat.simps [simp del]

subsection \<open>The unique-name search\<close>

text \<open>The name tried at a counter: \<open>f"{stem} ({counter}){suffix}"\<close> under the parent.\<close>

definition new_name :: "path \<Rightarrow> nat \<Rightarrow> string" where
  "new_name p counter =
     stem (name p) @ '' ('' @ str_of_nat counter @ '')'' @ suffix (name p)"

definition new_path :: "path \<Rightarrow> nat \<Rightarrow> path" where
  "new_path p counter = joinpath (parent p) (new_name p counter)"

text \<open>
  The search of \<open>_get_unique_name\<close> is a \<open>while True\<close> loop. It ends because the
  names tried are pairwise different and the table of the file system is finite;
  the facts below are what the termination proof needs.
\<close>

definition nat_of_str :: "string \<Rightarrow> nat" where
  "nat_of_str s = foldl (\<lambda>a c. 10 * a + (of_char c - 48)) 0 s"

lemma nat_of_str_of_nat: "nat_of_str (str_of_nat n) = n"
proof (induction n rule: str_of_nat.induct)
  case (1 n)
  have dig: "(of_char (digit d) :: nat) = 48 + d" if "d < 10" for d
    using that by (simp add: digit_def)
  show ?case
  proof (cases "n < 10")
    case True
    then show ?thesis
      by (simp add: str_of_nat.simps [of n] nat_of_str_def dig)
  next
    case False
    then have "nat_of_str (str_of_nat (n div 10)) = n div 10"
      using 1 by simp
    then show ?thesis
      using False by (simp add: str_of_nat.simps [of n] nat_of_str_def dig)
  qed
qed

lemma new_name_inj: "new_name p j = new_name p k \<Longrightarrow> j = k"
proof -
  assume "new_name p j = new_name p k"
  then have "str_of_nat j = str_of_nat k"
    by (simp add: new_name_def)
  then show "j = k"
    by (metis nat_of_str_of_nat)
qed

lemma absolute_new_path_inj:
  "absolute f (new_path p j) = absolute f (new_path p k) \<Longrightarrow> j = k"
proof -
  have ne: "new_name p i \<noteq> []" for i
    by (simp add: new_name_def)
  assume "absolute f (new_path p j) = absolute f (new_path p k)"
  then have "new_name p j = new_name p k"
    by (auto simp: absolute_def new_path_def joinpath_def ne parent_def split: if_splits)
  then show "j = k"
    by (rule new_name_inj)
qed

lemma finite_taken: "finite {k. exists f (new_path p k)}"
proof -
  have "{k. exists f (new_path p k)}
          \<subseteq> (\<lambda>k. absolute f (new_path p k)) -` (fst ` set (entries f))"
    by (auto simp: exists_def lookup_def map_of_eq_None_iff)
  moreover have "finite ((\<lambda>k. absolute f (new_path p k)) -` (fst ` set (entries f)))"
    by (rule finite_vimageI) (auto intro!: injI dest: absolute_new_path_inj)
  ultimately show ?thesis
    by (rule finite_subset)
qed

function unique_from :: "filesystem \<Rightarrow> path \<Rightarrow> nat \<Rightarrow> path" where
  "unique_from f p counter =
     (if \<not> exists f (new_path p counter) then new_path p counter
      else unique_from f p (counter + 1))"
  by pat_completeness auto
termination
proof (relation "measure (\<lambda>(f, p, counter). card {k. counter \<le> k \<and> exists f (new_path p k)})")
  show "wf (measure (\<lambda>(f, p, counter). card {k. counter \<le> k \<and> exists f (new_path p k)}))"
    by simp
next
  fix f p counter
  assume "\<not> \<not> exists f (new_path p counter)"
  then have "counter \<in> {k. counter \<le> k \<and> exists f (new_path p k)}"
    by simp
  moreover have "counter \<notin> {k. counter + 1 \<le> k \<and> exists f (new_path p k)}"
    by simp
  moreover have "{k. counter + 1 \<le> k \<and> exists f (new_path p k)}
                   \<subseteq> {k. counter \<le> k \<and> exists f (new_path p k)}"
    by auto
  ultimately have "{k. counter + 1 \<le> k \<and> exists f (new_path p k)}
                     \<subset> {k. counter \<le> k \<and> exists f (new_path p k)}"
    by blast
  moreover have "finite {k. counter \<le> k \<and> exists f (new_path p k)}"
    by (rule finite_subset [OF _ finite_taken [of f p]]) auto
  ultimately have "card {k. counter + 1 \<le> k \<and> exists f (new_path p k)}
                     < card {k. counter \<le> k \<and> exists f (new_path p k)}"
    by (rule psubset_card_mono [rotated])
  then show "((f, p, counter + 1), (f, p, counter))
               \<in> measure (\<lambda>(f, p, counter). card {k. counter \<le> k \<and> exists f (new_path p k)})"
    by simp
qed

declare unique_from.simps [simp del]

text \<open>\<open>_get_unique_name\<close>: the counter starts at 1.\<close>

definition get_unique_name :: "filesystem \<Rightarrow> path \<Rightarrow> path" where
  "get_unique_name f p = unique_from f p 1"

subsection \<open>Exceptions and the library calls that change the file system\<close>

datatype OperationType = COPY | CUT

datatype ConflictAction = REPLACE | KEEP_BOTH | SKIP

text \<open>
  The exceptions the handlers of the program tell apart, each with its message:
  \<open>PermissionError\<close>, any other \<open>OSError\<close>, the program's own \<open>FileOperationError\<close>,
  and any other \<open>Exception\<close>.
\<close>

datatype exn =
    PermissionError string
  | OSError string
  | FileOperationError string
  | OtherException string

fun message :: "exn \<Rightarrow> string" where
  "message (PermissionError m) = m"
| "message (OSError m) = m"
| "message (FileOperationError m) = m"
| "message (OtherException m) = m"

text \<open>
  A library call gives the file system it leaves behind and the exception it
  raised, if any: a call that fails may have changed the file system already.
\<close>

type_synonym os_result = "exn option \<times> filesystem"

record shutil =
  rmtree :: "filesystem \<Rightarrow> path \<Rightarrow> os_result"
  unlink :: "filesystem \<Rightarrow> path \<Rightarrow> os_result"
  copytree :: "filesystem \<Rightarrow> path \<Rightarrow> path \<Rightarrow> os_result"
  copy2 :: "filesystem \<Rightarrow> path \<Rightarrow> path \<Rightarrow> os_result"
  move :: "filesystem \<Rightarrow> path \<Rightarrow> path \<Rightarrow> os_result"

text \<open>\<open>_copy_item\<close>: a directory is copied as a tree, anything else as a file; every exception is raised again as \<open>FileOperationError\<close>.\<close>

definition copy_item :: "shutil \<Rightarrow> filesystem \<Rightarrow> path \<Rightarrow> path \<Rightarrow> os_result" where
  "copy_item sh f source destination =
     (case (if is_dir f source then copytree sh f source destination
            else copy2 sh f source destination) of
        (None, f') \<Rightarrow> (None, f')
      | (Some (PermissionError m), f') \<Rightarrow>
          (Some (FileOperationError (''Permission denied: '' @ m)), f')
      | (Some (OSError m), f') \<Rightarrow>
          (Some (FileOperationError (''OS error during copy: '' @ m)), f')
      | (Some e, f') \<Rightarrow>
          (Some (FileOperationError (''Failed to copy: '' @ message e)), f'))"

text \<open>\<open>_move_item\<close>.\<close>

definition move_item :: "shutil \<Rightarrow> filesystem \<Rightarrow> path \<Rightarrow> path \<Rightarrow> os_result" where
  "move_item sh f source destination =
     (case move sh f source destination of
        (None, f') \<Rightarrow> (None, f')
      | (Some (PermissionError m), f') \<Rightarrow>
          (Some (FileOperationError (''Permission denied: '' @ m)), f')
      | (Some (OSError m), f') \<Rightarrow>
          (Some (FileOperationError (''OS error during move: '' @ m)), f')
      | (Some e, f') \<Rightarrow>
          (Some (FileOperationError (''Failed to move: '' @ message e)), f'))"

subsection \<open>Standard input and the conflict prompt\<close>

text \<open>
  What one call of \<open>input\<close> can do: give a line (without its newline), be
  interrupted (\<open>KeyboardInterrupt\<close>), or raise another exception. At the end of
  the list \<open>input\<close> raises \<open>EOFError\<close>, which is such another exception.
\<close>

datatype input_event = Line string | Interrupt | ReadError

text \<open>
  A call either returns or leaves through \<open>sys.exit(code)\<close>: \<open>SystemExit\<close> is no
  \<open>Exception\<close>, so no handler of the program catches it.
\<close>

datatype 'a outcome = Returns 'a | Exits int

text \<open>
  \<open>str.strip\<close> and \<open>str.upper\<close>. A character of a line is a code point below 256.
  The white space \<open>strip\<close> removes is, among these, 9 to 13, 28 to 32, 133 and 160.
  \<open>upper\<close> is given on the letters a to z: no other code point below 256 becomes
  R, K or S (the sharp s becomes SS), so the three tests of the prompt come out
  as in Python. Code points from 256 on, such as the long s that \<open>upper\<close> turns
  into S, are outside the type.
\<close>

definition is_space :: "char \<Rightarrow> bool" where
  "is_space c =
     (let n = (of_char c :: nat) in
      (9 \<le> n \<and> n \<le> 13) \<or> (28 \<le> n \<and> n \<le> 32) \<or> n = 133 \<or> n = 160)"

definition strip :: "string \<Rightarrow> string" where
  "strip s = rev (dropWhile is_space (rev (dropWhile is_space s)))"

definition upper_char :: "char \<Rightarrow> char" where
  "upper_char c =
     (let n = (of_char c :: nat) in if 97 \<le> n \<and> n \<le> 122 then char_of (n - 32) else c)"

definition upper :: "string \<Rightarrow> string" where
  "upper s = map upper_char s"

definition lower_char :: "char \<Rightarrow> char" where
  "lower_char c =
     (let n = (of_char c :: nat) in if 65 \<le> n \<and> n \<le> 90 then char_of (n + 32) else c)"

definition lower :: "string \<Rightarrow> string" where
  "lower s = map lower_char s"

text \<open>
  \<open>_ask_conflict_resolution\<close>, on the input that is left (its two path
  arguments are only printed). It returns the answer, or the exit, and the
  input not yet read.
\<close>

fun ask_conflict_resolution ::
  "input_event list \<Rightarrow> ConflictAction outcome \<times> input_event list" where
  "ask_conflict_resolution [] = (Returns SKIP, [])"
| "ask_conflict_resolution (Line s # rest) =
     (let choice = upper (strip s) in
      if choice = ''R'' then (Returns REPLACE, rest)
      else if choice = ''K'' then (Returns KEEP_BOTH, rest)
      else if choice = ''S'' then (Returns SKIP, rest)
      else ask_conflict_resolution rest)"
| "ask_conflict_resolution (Interrupt # rest) = (Exits 0, rest)"
| "ask_conflict_resolution (ReadError # rest) = (Returns SKIP, rest)"

subsection \<open>The clipboard: copy, cut, clear\<close>

record FileOperations =
  clipboard :: "path list"
  operation_type :: "OperationType option"

text \<open>\<open>__init__\<close>.\<close>

definition init :: FileOperations where
  "init = \<lparr>clipboard = [], operation_type = None\<rparr>"

text \<open>
  The validation loop of \<open>copy\<close> and \<open>cut\<close>: \<open>None\<close> is the early \<open>return False\<close> at
  the first path that does not exist.
\<close>

fun validate :: "filesystem \<Rightarrow> string list \<Rightarrow> path list \<Rightarrow> path list option" where
  "validate f [] validated_paths = Some validated_paths"
| "validate f (path_str # rest) validated_paths =
     (let p = Path_of path_str in
      if \<not> exists f p then None
      else validate f rest (validated_paths @ [absolute f p]))"

definition copy :: "filesystem \<Rightarrow> FileOperations \<Rightarrow> string list \<Rightarrow> bool \<times> FileOperations" where
  "copy f self paths =
     (case validate f paths [] of
        None \<Rightarrow> (False, self)
      | Some validated_paths \<Rightarrow>
          (True, self\<lparr>clipboard := validated_paths, operation_type := Some COPY\<rparr>))"

definition cut :: "filesystem \<Rightarrow> FileOperations \<Rightarrow> string list \<Rightarrow> bool \<times> FileOperations" where
  "cut f self paths =
     (case validate f paths [] of
        None \<Rightarrow> (False, self)
      | Some validated_paths \<Rightarrow>
          (True, self\<lparr>clipboard := validated_paths, operation_type := Some CUT\<rparr>))"

definition clear_clipboard :: "FileOperations \<Rightarrow> FileOperations" where
  "clear_clipboard self = self\<lparr>clipboard := [], operation_type := None\<rparr>"

subsection \<open>Paste\<close>

record world =
  fsys :: filesystem
  stdin :: "input_event list"

text \<open>\<open>default_conflict_action or self._ask_conflict_resolution(...)\<close>: every action is truthy, so the prompt runs only without a default.\<close>

definition resolve ::
  "ConflictAction option \<Rightarrow> input_event list \<Rightarrow> ConflictAction outcome \<times> input_event list" where
  "resolve default_conflict_action inp =
     (case default_conflict_action of
        Some action \<Rightarrow> (Returns action, inp)
      | None \<Rightarrow> ask_conflict_resolution inp)"

text \<open>
  What the body of the loop does with one entry: it succeeds with its final
  target, is skipped (the \<open>continue\<close>), fails with the exception one of the two
  handlers catches, or leaves the program.
\<close>

datatype entry_result =
    Succeeded path world
  | Skipped world
  | Failed exn world
  | Cancelled int world

text \<open>"Perform the operation": copy or move, then \<open>success_count += 1\<close>.\<close>

definition perform :: "shutil \<Rightarrow> OperationType \<Rightarrow> path \<Rightarrow> path \<Rightarrow> world \<Rightarrow> entry_result" where
  "perform sh op source_path dest_item_path w =
     (case (if op = COPY then copy_item sh (fsys w) source_path dest_item_path
            else move_item sh (fsys w) source_path dest_item_path) of
        (None, f') \<Rightarrow> Succeeded dest_item_path (w\<lparr>fsys := f'\<rparr>)
      | (Some e, f') \<Rightarrow> Failed e (w\<lparr>fsys := f'\<rparr>))"

definition process_entry ::
  "shutil \<Rightarrow> OperationType \<Rightarrow> path \<Rightarrow> ConflictAction option \<Rightarrow> path \<Rightarrow> world \<Rightarrow> entry_result" where
  "process_entry sh op dest_path default_conflict_action source_path w =
     (let dest_item_path = joinpath dest_path (name source_path) in
      if exists (fsys w) dest_item_path then
        (case resolve default_conflict_action (stdin w) of
           (Exits code, inp) \<Rightarrow> Cancelled code (w\<lparr>stdin := inp\<rparr>)
         | (Returns SKIP, inp) \<Rightarrow> Skipped (w\<lparr>stdin := inp\<rparr>)
         | (Returns REPLACE, inp) \<Rightarrow>
             (case (if is_dir (fsys w) dest_item_path then rmtree sh (fsys w) dest_item_path
                    else unlink sh (fsys w) dest_item_path) of
                (Some e, f') \<Rightarrow> Failed e (w\<lparr>fsys := f', stdin := inp\<rparr>)
              | (None, f') \<Rightarrow>
                  perform sh op source_path dest_item_path (w\<lparr>fsys := f', stdin := inp\<rparr>))
         | (Returns KEEP_BOTH, inp) \<Rightarrow>
             perform sh op source_path (get_unique_name (fsys w) dest_item_path)
               (w\<lparr>stdin := inp\<rparr>))
      else perform sh op source_path dest_item_path w)"

text \<open>The loop over the clipboard, with its two counters.\<close>

datatype loop_result = Done nat nat world | Exit int world

fun paste_loop ::
  "shutil \<Rightarrow> OperationType \<Rightarrow> path \<Rightarrow> ConflictAction option \<Rightarrow> path list
     \<Rightarrow> nat \<Rightarrow> nat \<Rightarrow> world \<Rightarrow> loop_result" where
  "paste_loop sh op dest_path dflt [] success_count failed_count w =
     Done success_count failed_count w"
| "paste_loop sh op dest_path dflt (source_path # rest) success_count failed_count w =
     (case process_entry sh op dest_path dflt source_path w of
        Succeeded target w' \<Rightarrow>
          paste_loop sh op dest_path dflt rest (success_count + 1) failed_count w'
      | Skipped w' \<Rightarrow>
          paste_loop sh op dest_path dflt rest success_count failed_count w'
      | Failed e w' \<Rightarrow>
          paste_loop sh op dest_path dflt rest success_count (failed_count + 1) w'
      | Cancelled code w' \<Rightarrow> Exit code w')"

text \<open>
  \<open>paste\<close> returns its flag, or the program exits inside it; both come with the
  clipboard object and the world as they are then.
\<close>

datatype paste_result =
    Returned bool FileOperations world
  | Exited int FileOperations world

definition paste ::
  "shutil \<Rightarrow> FileOperations \<Rightarrow> world \<Rightarrow> string \<Rightarrow> ConflictAction option \<Rightarrow> paste_result" where
  "paste sh self w destination default_conflict_action =
     (if clipboard self = [] then Returned False self w
      else case operation_type self of
        None \<Rightarrow> Returned False self w
      | Some op \<Rightarrow>
          (let dest_path = Path_of destination in
           if \<not> exists (fsys w) dest_path then Returned False self w
           else if \<not> is_dir (fsys w) dest_path then Returned False self w
           else
             (case paste_loop sh op dest_path default_conflict_action (clipboard self) 0 0 w of
                Exit code w' \<Rightarrow> Exited code self w'
              | Done success_count failed_count w' \<Rightarrow>
                  Returned (success_count > 0)
                    (if op = CUT \<and> failed_count = 0
                     then self\<lparr>clipboard := [], operation_type := None\<rparr>
                     else self)
                    w')))"

subsection \<open>The command line\<close>

text \<open>
  How a call of \<open>paste\<close> ends the process under \<open>main\<close>: \<open>sys.exit(0 if success else
  1)\<close> after a return, and the code of a \<open>SystemExit\<close> raised inside, which passes
  both handlers of \<open>main\<close> (\<open>except KeyboardInterrupt\<close>, exit 130, and \<open>except
  Exception\<close>, exit 1).
\<close>

definition exit_code :: "paste_result \<Rightarrow> int" where
  "exit_code r =
     (case r of
        Returned success self w \<Rightarrow> (if success then 0 else 1)
      | Exited code self w \<Rightarrow> code)"

text \<open>\<open>main\<close>: the exit status and the world it leaves. Every run starts from a new \<open>FileOperations\<close>.\<close>

definition main :: "shutil \<Rightarrow> string list \<Rightarrow> world \<Rightarrow> int \<times> world" where
  "main sh argv w =
     (let file_ops = init in
      if length argv < 2 then (1, w)
      else
        (let command = lower (argv ! 1) in
         if command = ''copy'' then
           (if length argv < 3 then (1, w)
            else (if fst (copy (fsys w) file_ops (drop 2 argv)) then 0 else 1, w))
         else if command = ''cut'' then
           (if length argv < 3 then (1, w)
            else (if fst (cut (fsys w) file_ops (drop 2 argv)) then 0 else 1, w))
         else if command = ''paste'' then
           (if length argv < 3 then (1, w)
            else
              (case paste sh file_ops w (argv ! 2) None of
                 Returned success self w' \<Rightarrow> (exit_code (Returned success self w'), w')
               | Exited code self w' \<Rightarrow> (exit_code (Exited code self w'), w')))
         else if command = ''show'' then (0, w)
         else if command = ''clear'' then (0, w)
         else (1, w)))"

subsection \<open>Notions the properties are stated with\<close>

text \<open>The invariant of the clipboard: no intent exactly when there are no paths.\<close>

definition clipboard_invariant :: "FileOperations \<Rightarrow> bool" where
  "clipboard_invariant self = ((operation_type self = None) = (clipboard self = []))"

text \<open>The four checks of \<open>paste\<close> before its loop.\<close>

definition passes_validation :: "FileOperations \<Rightarrow> world \<Rightarrow> string \<Rightarrow> bool" where
  "passes_validation self w destination =
     (clipboard self \<noteq> [] \<and> operation_type self \<noteq> None
      \<and> exists (fsys w) (Path_of destination) \<and> is_dir (fsys w) (Path_of destination))"

text \<open>The clipboard object a call of \<open>paste\<close> leaves.\<close>

fun clipboard_after :: "paste_result \<Rightarrow> FileOperations" where
  "clipboard_after (Returned success self w) = self"
| "clipboard_after (Exited code self w) = self"

text \<open>
  The outcomes of the entries of a batch, one after the other, each from the
  world the one before left; the batch stops at an entry that leaves the program.
\<close>

fun world_after :: "entry_result \<Rightarrow> world" where
  "world_after (Succeeded target w) = w"
| "world_after (Skipped w) = w"
| "world_after (Failed e w) = w"
| "world_after (Cancelled code w) = w"

fun is_cancelled :: "entry_result \<Rightarrow> bool" where
  "is_cancelled (Cancelled code w) = True"
| "is_cancelled r = False"

fun is_succeeded :: "entry_result \<Rightarrow> bool" where
  "is_succeeded (Succeeded target w) = True"
| "is_succeeded r = False"

fun is_skipped :: "entry_result \<Rightarrow> bool" where
  "is_skipped (Skipped w) = True"
| "is_skipped r = False"

fun is_failed :: "entry_result \<Rightarrow> bool" where
  "is_failed (Failed e w) = True"
| "is_failed r = False"

fun entry_outcomes ::
  "shutil \<Rightarrow> OperationType \<Rightarrow> path \<Rightarrow> ConflictAction option \<Rightarrow> path list \<Rightarrow> world
     \<Rightarrow> entry_result list" where
  "entry_outcomes sh op dest_path dflt [] w = []"
| "entry_outcomes sh op dest_path dflt (source_path # rest) w =
     (let r = process_entry sh op dest_path dflt source_path w in
      if is_cancelled r then [r]
      else r # entry_outcomes sh op dest_path dflt rest (world_after r))"

definition n_succeeded :: "entry_result list \<Rightarrow> nat" where
  "n_succeeded rs = length (filter is_succeeded rs)"

definition n_skipped :: "entry_result list \<Rightarrow> nat" where
  "n_skipped rs = length (filter is_skipped rs)"

definition n_failed :: "entry_result list \<Rightarrow> nat" where
  "n_failed rs = length (filter is_failed rs)"

text \<open>The world a batch leaves: the one after its last outcome, or the one it started in when there is none.\<close>

definition world_left :: "world \<Rightarrow> entry_result list \<Rightarrow> world" where
  "world_left w rs = (if rs = [] then w else world_after (last rs))"

text \<open>A line the prompt rejects: after \<open>strip\<close> and \<open>upper\<close> it is none of R, K, S.\<close>

fun rejected :: "input_event \<Rightarrow> bool" where
  "rejected (Line s) =
     (upper (strip s) \<noteq> ''R'' \<and> upper (strip s) \<noteq> ''K'' \<and> upper (strip s) \<noteq> ''S'')"
| "rejected e = False"

subsection \<open>A reference file system, to run the model\<close>

text \<open>
  A plain reading of the five library calls on the table, used only to evaluate
  the model on concrete inputs. A path is under a directory when the components
  of the directory start it.
\<close>

definition under :: "path \<Rightarrow> path \<Rightarrow> bool" where
  "under d q = (take (length (parts d)) (parts q) = parts d)"

definition rebase :: "path \<Rightarrow> path \<Rightarrow> path \<Rightarrow> path" where
  "rebase s d q = Path True (parts d @ drop (length (parts s)) (parts q))"

definition ref_unlink :: "filesystem \<Rightarrow> path \<Rightarrow> os_result" where
  "ref_unlink f p =
     (case lookup f p of
        Some (File c) \<Rightarrow> (None, f\<lparr>entries := filter (\<lambda>(q, n). q \<noteq> absolute f p) (entries f)\<rparr>)
      | Some Dir \<Rightarrow> (Some (OSError ''Is a directory''), f)
      | None \<Rightarrow> (Some (OSError ''No such file or directory''), f))"

definition ref_rmtree :: "filesystem \<Rightarrow> path \<Rightarrow> os_result" where
  "ref_rmtree f p =
     (if is_dir f p
      then (None, f\<lparr>entries := filter (\<lambda>(q, n). \<not> under (absolute f p) q) (entries f)\<rparr>)
      else (Some (OSError ''Not a directory''), f))"

definition ref_copy2 :: "filesystem \<Rightarrow> path \<Rightarrow> path \<Rightarrow> os_result" where
  "ref_copy2 f s d =
     (case lookup f s of
        Some (File c) \<Rightarrow> (None, f\<lparr>entries := (absolute f d, File c) # entries f\<rparr>)
      | Some Dir \<Rightarrow> (Some (OSError ''Is a directory''), f)
      | None \<Rightarrow> (Some (OSError ''No such file or directory''), f))"

definition ref_copytree :: "filesystem \<Rightarrow> path \<Rightarrow> path \<Rightarrow> os_result" where
  "ref_copytree f s d =
     (if exists f d then (Some (OSError ''File exists''), f)
      else if is_dir f s then
        (None, f\<lparr>entries := entries f
           @ map (\<lambda>(q, n). (rebase (absolute f s) (absolute f d) q, n))
               (filter (\<lambda>(q, n). under (absolute f s) q) (entries f))\<rparr>)
      else (Some (OSError ''Not a directory''), f))"

definition ref_move :: "filesystem \<Rightarrow> path \<Rightarrow> path \<Rightarrow> os_result" where
  "ref_move f s d =
     (if \<not> exists f s then (Some (OSError ''No such file or directory''), f)
      else if exists f d then (Some (OSError ''Destination path already exists''), f)
      else
        (None, f\<lparr>entries :=
           map (\<lambda>(q, n). if under (absolute f s) q
                          then (rebase (absolute f s) (absolute f d) q, n) else (q, n))
             (entries f)\<rparr>))"

definition ref_shutil :: shutil where
  "ref_shutil =
     \<lparr>rmtree = ref_rmtree, unlink = ref_unlink, copytree = ref_copytree,
      copy2 = ref_copy2, move = ref_move\<rparr>"

text \<open>
  A sample tree: \<open>/src\<close> holds \<open>report.txt\<close>, \<open>notes.txt\<close> and the directory
  \<open>my.dir\<close>; \<open>/dst\<close> holds \<open>report.txt\<close>, \<open>report (1).txt\<close> and a directory \<open>my.dir\<close>.
\<close>

definition sample_fs :: filesystem where
  "sample_fs =
     \<lparr>cwd = Path True [''src''],
      entries =
        [(Path True [], Dir),
         (Path True [''src''], Dir),
         (Path True [''src'', ''report.txt''], File ''new''),
         (Path True [''src'', ''notes.txt''], File ''notes''),
         (Path True [''src'', ''my.dir''], Dir),
         (Path True [''dst''], Dir),
         (Path True [''dst'', ''report.txt''], File ''old''),
         (Path True [''dst'', ''report (1).txt''], File ''older''),
         (Path True [''dst'', ''my.dir''], Dir)]\<rparr>"

text \<open>Two staged clipboards over the sample tree, a world on it, and the tree after the two files of \<open>/src\<close> were moved to \<open>/dst\<close> with the report kept beside the old ones.\<close>

definition staged_cut :: FileOperations where
  "staged_cut =
     \<lparr>clipboard = [Path True [''src'', ''report.txt''], Path True [''src'', ''notes.txt'']],
      operation_type = Some CUT\<rparr>"

definition staged_copy :: FileOperations where
  "staged_copy =
     \<lparr>clipboard = [Path True [''src'', ''report.txt''], Path True [''src'', ''notes.txt'']],
      operation_type = Some COPY\<rparr>"

definition sample_world :: "input_event list \<Rightarrow> world" where
  "sample_world inp = \<lparr>fsys = sample_fs, stdin = inp\<rparr>"

definition moved_fs :: filesystem where
  "moved_fs =
     \<lparr>cwd = Path True [''src''],
      entries =
        [(Path True [], Dir),
         (Path True [''src''], Dir),
         (Path True [''dst'', ''report (2).txt''], File ''new''),
         (Path True [''dst'', ''notes.txt''], File ''notes''),
         (Path True [''src'', ''my.dir''], Dir),
         (Path True [''dst''], Dir),
         (Path True [''dst'', ''report.txt''], File ''old''),
         (Path True [''dst'', ''report (1).txt''], File ''older''),
         (Path True [''dst'', ''my.dir''], Dir)]\<rparr>"

text \<open>The same two files staged for a move in the other order, so that the second one conflicts, and the tree after the first was moved.\<close>

definition staged_cut_notes_first :: FileOperations where
  "staged_cut_notes_first =
     \<lparr>clipboard = [Path True [''src'', ''notes.txt''], Path True [''src'', ''report.txt'']],
      operation_type = Some CUT\<rparr>"

definition notes_moved_fs :: filesystem where
  "notes_moved_fs =
     \<lparr>cwd = Path True [''src''],
      entries =
        [(Path True [], Dir),
         (Path True [''src''], Dir),
         (Path True [''src'', ''report.txt''], File ''new''),
         (Path True [''dst'', ''notes.txt''], File ''notes''),
         (Path True [''src'', ''my.dir''], Dir),
         (Path True [''dst''], Dir),
         (Path True [''dst'', ''report.txt''], File ''old''),
         (Path True [''dst'', ''report (1).txt''], File ''older''),
         (Path True [''dst'', ''my.dir''], Dir)]\<rparr>"

text \<open>The sample tree after \<open>notes.txt\<close> was copied to \<open>/dst\<close>.\<close>

definition notes_copied_fs :: filesystem where
  "notes_copied_fs =
     \<lparr>cwd = Path True [''src''],
      entries =
        [(Path True [''dst'', ''notes.txt''], File ''notes''),
         (Path True [], Dir),
         (Path True [''src''], Dir),
         (Path True [''src'', ''report.txt''], File ''new''),
         (Path True [''src'', ''notes.txt''], File ''notes''),
         (Path True [''src'', ''my.dir''], Dir),
         (Path True [''dst''], Dir),
         (Path True [''dst'', ''report.txt''], File ''old''),
         (Path True [''dst'', ''report (1).txt''], File ''older''),
         (Path True [''dst'', ''my.dir''], Dir)]\<rparr>"

section \<open>Properties\<close>

subsection \<open>Staging\<close>

lemma validate_None:
  "(validate f paths acc = None) = (\<exists>p\<in>set paths. \<not> exists f (Path_of p))"
  by (induction paths arbitrary: acc) (auto simp: Let_def)

lemma validate_all:
  "\<forall>p\<in>set paths. exists f (Path_of p) \<Longrightarrow>
     validate f paths acc = Some (acc @ map (\<lambda>s. absolute f (Path_of s)) paths)"
  by (induction paths arbitrary: acc) (simp_all add: Let_def)

lemma validate_Some:
  assumes "validate f paths acc = Some v"
  shows "v = acc @ map (\<lambda>s. absolute f (Path_of s)) paths"
proof -
  have "validate f paths acc \<noteq> None"
    using assms by simp
  then have "\<forall>p\<in>set paths. exists f (Path_of p)"
    by (simp add: validate_None)
  from validate_all [OF this, of acc] assms show ?thesis
    by simp
qed

text \<open>
  C6, as amended. A staging call that succeeds returns the flag \<open>True\<close>, not a count
  (the return type of \<open>copy\<close> and \<open>cut\<close> is \<open>bool\<close>); the number of items staged, which
  is the length of the clipboard afterwards, is the length of the input list.
\<close>

theorem staging_stages_every_path:
  "(copy f self paths = (True, self') \<longrightarrow> length (clipboard self') = length paths)
 \<and> (cut f self paths = (True, self') \<longrightarrow> length (clipboard self') = length paths)"
  by (auto simp: copy_def cut_def split: option.splits dest: validate_Some)

theorem staging_stages_every_path_witness:
  "copy sample_fs init [''report.txt'', ''notes.txt''] = (True, staged_copy)
   \<and> length (clipboard staged_copy) = length [''report.txt'', ''notes.txt'']"
proof -
  have run: "copy sample_fs init [''report.txt'', ''notes.txt''] = (True, staged_copy)"
    by code_simp
  with staging_stages_every_path [of sample_fs init "[''report.txt'', ''notes.txt'']" staged_copy]
  show ?thesis
    by simp
qed

text \<open>
  C6 as it is written fails: staging two existing paths returns \<open>True\<close>, and even
  read as a number, as Python reads it, \<open>True\<close> is 1 and not the count 2.
\<close>

theorem staging_returns_flag_not_count:
  "fst (copy sample_fs init [''report.txt'', ''notes.txt''])
   \<and> (of_bool (fst (copy sample_fs init [''report.txt'', ''notes.txt''])) :: int)
        \<noteq> int (length [''report.txt'', ''notes.txt''])"
  by code_simp

text \<open>
  C7. A staging call whose list has a path that does not exist fails (returns
  \<open>False\<close>) and leaves the clipboard object, paths and intent, as it was.
\<close>

theorem staging_all_or_nothing:
  assumes "\<exists>p\<in>set paths. \<not> exists f (Path_of p)"
  shows "copy f self paths = (False, self) \<and> cut f self paths = (False, self)"
proof -
  have "validate f paths [] = None"
    using assms by (simp add: validate_None)
  then show ?thesis
    by (simp add: copy_def cut_def)
qed

theorem staging_all_or_nothing_witness:
  "(\<exists>p\<in>set [''report.txt'', ''missing.txt'', ''notes.txt'']. \<not> exists sample_fs (Path_of p))
   \<and> copy sample_fs staged_cut [''report.txt'', ''missing.txt'', ''notes.txt''] = (False, staged_cut)
   \<and> cut sample_fs staged_cut [''report.txt'', ''missing.txt'', ''notes.txt''] = (False, staged_cut)"
proof -
  have h: "\<exists>p\<in>set [''report.txt'', ''missing.txt'', ''notes.txt'']. \<not> exists sample_fs (Path_of p)"
    by code_simp
  from staging_all_or_nothing [OF h, of staged_cut] h show ?thesis
    by simp
qed

text \<open>
  C9. Staging a list of existing paths succeeds, and the clipboard then holds
  exactly those paths, each made absolute, in the order given and with
  duplicates kept, under the intent of the operation used. (The list need not
  even be non-empty for this.)
\<close>

theorem staging_then_peek:
  assumes "\<forall>p\<in>set paths. exists f (Path_of p)"
  shows "copy f self paths
           = (True, self\<lparr>clipboard := map (\<lambda>s. absolute f (Path_of s)) paths,
                         operation_type := Some COPY\<rparr>)
       \<and> cut f self paths
           = (True, self\<lparr>clipboard := map (\<lambda>s. absolute f (Path_of s)) paths,
                         operation_type := Some CUT\<rparr>)
       \<and> list_all anchored (map (\<lambda>s. absolute f (Path_of s)) paths)"
proof -
  have "validate f paths [] = Some ([] @ map (\<lambda>s. absolute f (Path_of s)) paths)"
    using assms by (rule validate_all)
  moreover have "anchored (absolute f p)" for p
    by (simp add: absolute_def)
  then have "list_all anchored (map (\<lambda>s. absolute f (Path_of s)) paths)"
    by (simp add: list_all_iff)
  ultimately show ?thesis
    by (simp add: copy_def cut_def)
qed

theorem staging_then_peek_witness:
  "list_all (\<lambda>p. exists sample_fs (Path_of p)) [''report.txt'', ''/src/notes.txt'', ''./report.txt'']
   \<and> copy sample_fs staged_cut [''report.txt'', ''/src/notes.txt'', ''./report.txt'']
       = (True,
          \<lparr>clipboard = [Path True [''src'', ''report.txt''], Path True [''src'', ''notes.txt''],
                        Path True [''src'', ''report.txt'']],
           operation_type = Some COPY\<rparr>)"
proof -
  have h: "\<forall>p\<in>set [''report.txt'', ''/src/notes.txt'', ''./report.txt'']. exists sample_fs (Path_of p)"
    by code_simp
  have m: "map (\<lambda>s. absolute sample_fs (Path_of s)) [''report.txt'', ''/src/notes.txt'', ''./report.txt'']
             = [Path True [''src'', ''report.txt''], Path True [''src'', ''notes.txt''],
                Path True [''src'', ''report.txt'']]"
    by code_simp
  from staging_then_peek [OF h, of staged_cut] h m show ?thesis
    by (simp add: staged_cut_def list_all_iff)
qed

subsection \<open>The unique-name search\<close>

lemma unique_from_first_free:
  "\<exists>k\<ge>c. unique_from f p c = new_path p k \<and> \<not> exists f (new_path p k)
      \<and> (\<forall>j. c \<le> j \<and> j < k \<longrightarrow> exists f (new_path p j))"
proof (induction f p c rule: unique_from.induct)
  case (1 f p counter)
  show ?case
  proof (cases "exists f (new_path p counter)")
    case False
    then have "unique_from f p counter = new_path p counter"
      by (simp add: unique_from.simps [of f p counter])
    with False show ?thesis
      by (intro exI [of _ counter]) auto
  next
    case True
    then obtain k where k: "counter + 1 \<le> k" "unique_from f p (counter + 1) = new_path p k"
        "\<not> exists f (new_path p k)" "\<forall>j. counter + 1 \<le> j \<and> j < k \<longrightarrow> exists f (new_path p j)"
      using 1 by auto
    have "unique_from f p counter = new_path p k"
      using True k(2) by (simp add: unique_from.simps [of f p counter])
    moreover have "\<forall>j. counter \<le> j \<and> j < k \<longrightarrow> exists f (new_path p j)"
    proof (intro allI impI)
      fix j assume "counter \<le> j \<and> j < k"
      then show "exists f (new_path p j)"
        using True k(4) by (cases "j = counter") auto
    qed
    ultimately show ?thesis
      using k(1,3) by (intro exI [of _ k]) simp
  qed
qed

lemma name_new_path: "name (new_path p k) = new_name p k"
  by (simp add: new_path_def joinpath_def name_def new_name_def)

text \<open>
  C5, as amended. The target of KEEP_BOTH is the first name
  \<open>stem (counter)suffix\<close>, counter 1, 2, ..., that does not exist beside the
  naive target; the search always ends. A directory is treated exactly as a
  file: its name is split at the last dot as well, so the counter goes before
  what follows that dot, and after the whole name only when the name has no
  suffix.
\<close>

theorem get_unique_name_first_free:
  "\<exists>k\<ge>1. get_unique_name f p = new_path p k
      \<and> name (new_path p k) = stem (name p) @ '' ('' @ str_of_nat k @ '')'' @ suffix (name p)
      \<and> \<not> exists f (new_path p k)
      \<and> (\<forall>j. 1 \<le> j \<and> j < k \<longrightarrow> exists f (new_path p j))"
  using unique_from_first_free [of 1 f p]
  by (auto simp: get_unique_name_def name_new_path new_name_def)

text \<open>With \<open>report.txt\<close> and \<open>report (1).txt\<close> in the destination, the target is \<open>report (2).txt\<close>.\<close>

theorem get_unique_name_first_free_witness:
  "get_unique_name sample_fs (Path True [''dst'', ''report.txt''])
     = Path True [''dst'', ''report (2).txt'']"
proof -
  let ?p = "Path True [''dst'', ''report.txt'']"
  obtain k where k: "1 \<le> k" "get_unique_name sample_fs ?p = new_path ?p k"
      "\<not> exists sample_fs (new_path ?p k)"
      "\<forall>j. 1 \<le> j \<and> j < k \<longrightarrow> exists sample_fs (new_path ?p j)"
    using get_unique_name_first_free [of sample_fs ?p] by blast
  have taken: "exists sample_fs (new_path ?p 1)"
    by code_simp
  have free: "\<not> exists sample_fs (new_path ?p 2)"
    by code_simp
  have "k \<noteq> 1"
    using k(3) taken by auto
  moreover have "\<not> 2 < k"
    using k(4) free by auto
  ultimately have "k = 2"
    using k(1) by arith
  moreover have "new_path ?p 2 = Path True [''dst'', ''report (2).txt'']"
    by code_simp
  ultimately show ?thesis
    using k(2) by simp
qed

text \<open>
  C5 as it is written fails for a directory whose name has a dot: for the
  directory \<open>my.dir\<close> the target is \<open>my (1).dir\<close>, not \<open>my.dir (1)\<close>.
\<close>

theorem get_unique_name_splits_directory_name:
  "is_dir sample_fs (Path True [''dst'', ''my.dir''])
   \<and> get_unique_name sample_fs (Path True [''dst'', ''my.dir'']) = Path True [''dst'', ''my (1).dir'']
   \<and> get_unique_name sample_fs (Path True [''dst'', ''my.dir'']) \<noteq> Path True [''dst'', ''my.dir (1)'']"
  by code_simp

subsection \<open>The conflict prompt\<close>

lemma ask_after_rejected:
  "\<forall>e\<in>set pre. rejected e \<Longrightarrow>
     ask_conflict_resolution (pre @ rest) = ask_conflict_resolution rest"
proof (induction pre)
  case Nil
  then show ?case by simp
next
  case (Cons e pre)
  then show ?case by (cases e) (simp_all add: Let_def)
qed

lemma skipped_step:
  assumes "exists (fsys w) (joinpath dest_path (name source_path))"
      and "resolve dflt (stdin w) = (Returns SKIP, inp)"
    shows "process_entry sh op dest_path dflt source_path w = Skipped (w\<lparr>stdin := inp\<rparr>)"
  using assms by (simp add: process_entry_def Let_def)

text \<open>
  C10. When reading the answer raises an exception that is no interrupt (an
  error of \<open>input\<close>, or end of input), after any number of rejected answers, the
  prompt returns SKIP at once; the entry is skipped, with no change of the file
  system and of the two counters, and the loop goes on with the next entry.
\<close>

theorem read_error_skips_entry:
  assumes "\<forall>e\<in>set pre. rejected e"
      and "exists (fsys w) (joinpath dest_path (name source_path))"
      and "stdin w = pre @ ReadError # inp \<or> (stdin w = pre \<and> inp = [])"
  shows "ask_conflict_resolution (stdin w) = (Returns SKIP, inp)
       \<and> process_entry sh op dest_path None source_path w = Skipped (w\<lparr>stdin := inp\<rparr>)
       \<and> paste_loop sh op dest_path None (source_path # rest) success_count failed_count w
           = paste_loop sh op dest_path None rest success_count failed_count (w\<lparr>stdin := inp\<rparr>)"
proof -
  have ask: "ask_conflict_resolution (stdin w) = (Returns SKIP, inp)"
    using assms(3) ask_after_rejected [OF assms(1), of "ReadError # inp"]
      ask_after_rejected [OF assms(1), of "[]"] by auto
  then have "resolve None (stdin w) = (Returns SKIP, inp)"
    by (simp add: resolve_def)
  from skipped_step [OF assms(2) this] ask show ?thesis by simp
qed

theorem read_error_skips_entry_witness:
  "ask_conflict_resolution [Line ''x'', ReadError, Line ''R''] = (Returns SKIP, [Line ''R''])
   \<and> paste_loop ref_shutil COPY (Path_of ''/dst'') None (clipboard staged_copy) 0 0
        (sample_world [Line ''x'', ReadError, Line ''R''])
       = paste_loop ref_shutil COPY (Path_of ''/dst'') None [Path True [''src'', ''notes.txt'']] 0 0
           (sample_world [Line ''R''])"
proof -
  have r: "\<forall>e\<in>set [Line ''x'']. rejected e"
    by code_simp
  have e: "exists (fsys (sample_world [Line ''x'', ReadError, Line ''R'']))
             (joinpath (Path_of ''/dst'') (name (Path True [''src'', ''report.txt''])))"
    by code_simp
  have i: "stdin (sample_world [Line ''x'', ReadError, Line ''R'']) = [Line ''x''] @ ReadError # [Line ''R'']
             \<or> (stdin (sample_world [Line ''x'', ReadError, Line ''R'']) = [Line ''x''] \<and> [Line ''R''] = [])"
    by (simp add: sample_world_def)
  from read_error_skips_entry [OF r e i, of ref_shutil COPY "[Path True [''src'', ''notes.txt'']]" 0 0]
  show ?thesis
    by (simp add: sample_world_def staged_copy_def)
qed

text \<open>
  An interrupt at the prompt, after any number of rejected answers, ends the
  loop at that entry with exit code 0: the entries after it are not looked at.
\<close>

lemma interrupt_cancels_batch:
  assumes "\<forall>e\<in>set pre. rejected e"
      and "exists (fsys w) (joinpath dest_path (name source_path))"
      and "stdin w = pre @ Interrupt # inp"
  shows "paste_loop sh op dest_path None (source_path # rest) success_count failed_count w
           = Exit 0 (w\<lparr>stdin := inp\<rparr>)"
proof -
  have "ask_conflict_resolution (stdin w) = (Exits 0, inp)"
    using assms(3) ask_after_rejected [OF assms(1), of "Interrupt # inp"] by simp
  then have "process_entry sh op dest_path None source_path w = Cancelled 0 (w\<lparr>stdin := inp\<rparr>)"
    using assms(2) by (simp add: process_entry_def resolve_def Let_def)
  then show ?thesis
    by simp
qed

text \<open>
  C4, at a failing input. The clipboard holds two files staged for copy, the
  first one conflicts in \<open>/dst\<close>, no default action is given, and the user
  answers the prompt with a rejected line and then an interrupt. The batch is
  abandoned there (the second file is not transferred, the line after the
  interrupt is not read), and the program exits with code 0, the code of
  success, where \<open>main\<close> uses 130 for an interrupt it catches itself.
\<close>

theorem interrupt_at_prompt_exits_0:
  "paste ref_shutil staged_copy (sample_world [Line ''what'', Interrupt, Line ''R'']) ''/dst'' None
     = Exited 0 staged_copy (sample_world [Line ''R''])
   \<and> exit_code (paste ref_shutil staged_copy (sample_world [Line ''what'', Interrupt, Line ''R''])
        ''/dst'' None) = 0"
  by code_simp

subsection \<open>Paste\<close>

text \<open>The prompt leaves the program with code 0 only, and only the prompt does.\<close>

lemma ask_exit_code:
  "ask_conflict_resolution inp = (Exits code, rest) \<Longrightarrow> code = 0"
  by (induction inp rule: ask_conflict_resolution.induct) (auto simp: Let_def split: if_splits)

lemma perform_not_Cancelled:
  "perform sh op source_path dest_item_path w \<noteq> Cancelled code w'"
  by (simp add: perform_def split: prod.splits option.splits)

lemma process_entry_Cancelled:
  assumes "process_entry sh op dest_path dflt source_path w = Cancelled code w'"
  shows "code = 0 \<and> dflt = None"
proof (cases dflt)
  case None
  obtain oc inp where r: "ask_conflict_resolution (stdin w) = (oc, inp)"
    by (cases "ask_conflict_resolution (stdin w)")
  show ?thesis
  proof (cases oc)
    case (Exits c)
    with r have "c = 0"
      by (auto dest: ask_exit_code)
    moreover have "code = c"
      using assms None r Exits
      by (auto simp: process_entry_def resolve_def Let_def perform_not_Cancelled
               split: if_splits)
    ultimately show ?thesis
      using None by simp
  next
    case (Returns a)
    then have False
      using assms None r
      by (cases a)
         (auto simp: process_entry_def resolve_def Let_def perform_not_Cancelled
               split: if_splits prod.splits option.splits)
    then show ?thesis ..
  qed
next
  case (Some a)
  then have False
    using assms
    by (cases a)
       (auto simp: process_entry_def resolve_def Let_def perform_not_Cancelled
             split: if_splits prod.splits option.splits)
  then show ?thesis ..
qed

text \<open>
  What the loop gives, from the outcomes of the entries: it leaves the program
  when an entry was cancelled; otherwise it ends, and its two counters have
  grown by the number of entries that succeeded and that failed.
\<close>

lemma loop_outcome:
  "paste_loop sh op d dflt srcs sc fc w =
     (if list_ex is_cancelled (entry_outcomes sh op d dflt srcs w)
      then Exit 0 (world_left w (entry_outcomes sh op d dflt srcs w))
      else Done (sc + n_succeeded (entry_outcomes sh op d dflt srcs w))
                (fc + n_failed (entry_outcomes sh op d dflt srcs w))
                (world_left w (entry_outcomes sh op d dflt srcs w)))"
proof (induction srcs arbitrary: sc fc w)
  case Nil
  then show ?case
    by (simp add: n_succeeded_def n_failed_def world_left_def)
next
  case (Cons src srcs)
  have left: "world_left w (r # entry_outcomes sh op d dflt srcs (world_after r))
                = world_left (world_after r) (entry_outcomes sh op d dflt srcs (world_after r))"
    for r
    by (simp add: world_left_def)
  show ?case
  proof (cases "process_entry sh op d dflt src w")
    case (Succeeded t w1)
    with Cons.IH [of "sc + 1" fc w1] left [of "Succeeded t w1"] show ?thesis
      by (simp add: n_succeeded_def n_failed_def)
  next
    case (Skipped w1)
    with Cons.IH [of sc fc w1] left [of "Skipped w1"] show ?thesis
      by (simp add: n_succeeded_def n_failed_def)
  next
    case (Failed e w1)
    with Cons.IH [of sc "fc + 1" w1] left [of "Failed e w1"] show ?thesis
      by (simp add: n_succeeded_def n_failed_def)
  next
    case (Cancelled c w1)
    then have "c = 0"
      using process_entry_Cancelled by blast
    with Cancelled show ?thesis
      by (simp add: world_left_def)
  qed
qed

text \<open>With a default action no prompt runs, so no entry is cancelled.\<close>

lemma default_action_never_cancels:
  "\<not> list_ex is_cancelled (entry_outcomes sh op d (Some a) srcs w)"
proof (induction srcs arbitrary: w)
  case Nil
  then show ?case by simp
next
  case (Cons src srcs)
  have "\<not> is_cancelled (process_entry sh op d (Some a) src w)"
  proof
    assume "is_cancelled (process_entry sh op d (Some a) src w)"
    then obtain c w1 where "process_entry sh op d (Some a) src w = Cancelled c w1"
      by (cases "process_entry sh op d (Some a) src w") simp_all
    then show False
      using process_entry_Cancelled by blast
  qed
  with Cons.IH show ?case
    by (simp add: Let_def)
qed

text \<open>The whole of \<open>paste\<close> once its four checks are passed.\<close>

lemma paste_outcome:
  assumes "passes_validation self w destination"
      and "operation_type self = Some op"
  shows "paste sh self w destination dflt =
     (if list_ex is_cancelled (entry_outcomes sh op (Path_of destination) dflt (clipboard self) w)
      then Exited 0 self
             (world_left w (entry_outcomes sh op (Path_of destination) dflt (clipboard self) w))
      else Returned
             (0 < n_succeeded (entry_outcomes sh op (Path_of destination) dflt (clipboard self) w))
             (if op = CUT
                 \<and> n_failed (entry_outcomes sh op (Path_of destination) dflt (clipboard self) w) = 0
              then self\<lparr>clipboard := [], operation_type := None\<rparr> else self)
             (world_left w (entry_outcomes sh op (Path_of destination) dflt (clipboard self) w)))"
  using assms
  by (simp add: paste_def passes_validation_def Let_def
        loop_outcome [of sh op "Path_of destination" dflt "clipboard self" 0 0 w])

text \<open>A call that the user cancels at a prompt leaves the clipboard object as it was.\<close>

lemma paste_Exited:
  "paste sh self w destination dflt = Exited code self' w' \<Longrightarrow> self' = self"
  by (auto simp: paste_def Let_def split: if_splits option.splits loop_result.splits)

text \<open>
  C1, as amended. A call of \<open>paste\<close> that passes validation and in which no entry
  is cancelled at a prompt returns, and then: with intent CUT and no failed
  entry the clipboard is empty and the intent reset; with intent CUT and a
  failed entry, and with intent COPY whatever the entries did, the clipboard
  object is as before. Skipped entries are not failed ones. A call that passes
  validation and in which an entry is cancelled at a prompt does not return: the
  program exits, with the clipboard object as before.
\<close>

theorem paste_clipboard_postcondition:
  assumes "passes_validation self w destination"
      and "operation_type self = Some op"
  shows
    "(\<not> list_ex is_cancelled (entry_outcomes sh op (Path_of destination) dflt (clipboard self) w)
        \<longrightarrow>
        (\<exists>success.
            paste sh self w destination dflt
              = Returned success (clipboard_after (paste sh self w destination dflt))
                  (world_left w
                     (entry_outcomes sh op (Path_of destination) dflt (clipboard self) w)))
        \<and> (op = CUT
             \<and> n_failed (entry_outcomes sh op (Path_of destination) dflt (clipboard self) w) = 0
            \<longrightarrow> clipboard (clipboard_after (paste sh self w destination dflt)) = []
                \<and> operation_type (clipboard_after (paste sh self w destination dflt)) = None)
        \<and> (op = CUT
             \<and> 0 < n_failed (entry_outcomes sh op (Path_of destination) dflt (clipboard self) w)
            \<longrightarrow> clipboard_after (paste sh self w destination dflt) = self)
        \<and> (op = COPY \<longrightarrow> clipboard_after (paste sh self w destination dflt) = self))
     \<and> (list_ex is_cancelled (entry_outcomes sh op (Path_of destination) dflt (clipboard self) w)
        \<longrightarrow>
        (\<exists>code.
            paste sh self w destination dflt
              = Exited code self
                  (world_left w
                     (entry_outcomes sh op (Path_of destination) dflt (clipboard self) w))))"
proof (cases "list_ex is_cancelled
                (entry_outcomes sh op (Path_of destination) dflt (clipboard self) w)")
  case True
  with paste_outcome [OF assms, of sh dflt] show ?thesis
    by simp
next
  case False
  with paste_outcome [OF assms, of sh dflt] show ?thesis
    by (cases op) auto
qed

text \<open>
  A move of two files, the first kept beside the two reports already there:
  nothing is cancelled, nothing fails, the call returns and the clipboard is
  empty, without intent.
\<close>

theorem paste_clipboard_postcondition_witness:
  "passes_validation staged_cut (sample_world [Line ''x'', Line '' k  '']) ''/dst''
   \<and> \<not> list_ex is_cancelled
         (entry_outcomes ref_shutil CUT (Path_of ''/dst'') None (clipboard staged_cut)
            (sample_world [Line ''x'', Line '' k  '']))
   \<and> n_failed (entry_outcomes ref_shutil CUT (Path_of ''/dst'') None (clipboard staged_cut)
        (sample_world [Line ''x'', Line '' k  ''])) = 0
   \<and> paste ref_shutil staged_cut (sample_world [Line ''x'', Line '' k  '']) ''/dst'' None
       = Returned True \<lparr>clipboard = [], operation_type = None\<rparr> \<lparr>fsys = moved_fs, stdin = []\<rparr>
   \<and> clipboard
        (clipboard_after
           (paste ref_shutil staged_cut (sample_world [Line ''x'', Line '' k  '']) ''/dst'' None))
       = []
   \<and> operation_type
        (clipboard_after
           (paste ref_shutil staged_cut (sample_world [Line ''x'', Line '' k  '']) ''/dst'' None))
       = None"
proof -
  have v: "passes_validation staged_cut (sample_world [Line ''x'', Line '' k  '']) ''/dst''"
    by code_simp
  have o: "operation_type staged_cut = Some CUT"
    by (simp add: staged_cut_def)
  have c: "\<not> list_ex is_cancelled
         (entry_outcomes ref_shutil CUT (Path_of ''/dst'') None (clipboard staged_cut)
            (sample_world [Line ''x'', Line '' k  '']))"
    by code_simp
  have n: "n_failed (entry_outcomes ref_shutil CUT (Path_of ''/dst'') None (clipboard staged_cut)
        (sample_world [Line ''x'', Line '' k  ''])) = 0"
    by code_simp
  have run: "paste ref_shutil staged_cut (sample_world [Line ''x'', Line '' k  '']) ''/dst'' None
       = Returned True \<lparr>clipboard = [], operation_type = None\<rparr> \<lparr>fsys = moved_fs, stdin = []\<rparr>"
    by code_simp
  from paste_clipboard_postcondition [OF v o, where sh = ref_shutil and dflt = None] v c n run
  show ?thesis
    by simp
qed

text \<open>
  C1 as it is written fails. Two files are staged for a move; the first one is
  moved, the second one conflicts and the user interrupts the prompt. The call
  passed validation, the intent is CUT and no entry failed, yet the clipboard
  is not cleared: it keeps both paths and the intent CUT.
\<close>

theorem cancelled_cut_keeps_clipboard:
  "passes_validation staged_cut_notes_first (sample_world [Interrupt]) ''/dst''
   \<and> n_failed (entry_outcomes ref_shutil CUT (Path_of ''/dst'') None
        (clipboard staged_cut_notes_first) (sample_world [Interrupt])) = 0
   \<and> n_succeeded (entry_outcomes ref_shutil CUT (Path_of ''/dst'') None
        (clipboard staged_cut_notes_first) (sample_world [Interrupt])) = 1
   \<and> paste ref_shutil staged_cut_notes_first (sample_world [Interrupt]) ''/dst'' None
       = Exited 0 staged_cut_notes_first \<lparr>fsys = notes_moved_fs, stdin = []\<rparr>
   \<and> clipboard
        (clipboard_after
           (paste ref_shutil staged_cut_notes_first (sample_world [Interrupt]) ''/dst'' None))
       = [Path True [''src'', ''notes.txt''], Path True [''src'', ''report.txt'']]
   \<and> operation_type
        (clipboard_after
           (paste ref_shutil staged_cut_notes_first (sample_world [Interrupt]) ''/dst'' None))
       = Some CUT"
  by code_simp

text \<open>
  C3, as amended. A call of \<open>paste\<close> that passes validation and in which no entry
  is cancelled at a prompt returns a flag, and the flag is true exactly when an
  entry of the batch succeeded; a batch whose entries are all skipped returns
  false. With a default action no entry is ever cancelled
  (lemma \<open>default_action_never_cancels\<close>).
\<close>

theorem paste_success_iff_entry_succeeded:
  assumes "passes_validation self w destination"
      and "operation_type self = Some op"
      and "\<not> list_ex is_cancelled
             (entry_outcomes sh op (Path_of destination) dflt (clipboard self) w)"
  shows
    "paste sh self w destination dflt
       = Returned
           (list_ex is_succeeded
              (entry_outcomes sh op (Path_of destination) dflt (clipboard self) w))
           (clipboard_after (paste sh self w destination dflt))
           (world_left w (entry_outcomes sh op (Path_of destination) dflt (clipboard self) w))
     \<and> ((\<forall>r\<in>set (entry_outcomes sh op (Path_of destination) dflt (clipboard self) w).
            is_skipped r)
          \<longrightarrow> paste sh self w destination dflt
                = Returned False (clipboard_after (paste sh self w destination dflt))
                    (world_left w
                       (entry_outcomes sh op (Path_of destination) dflt (clipboard self) w)))"
proof -
  let ?rs = "entry_outcomes sh op (Path_of destination) dflt (clipboard self) w"
  have flag: "(0 < n_succeeded ?rs) = list_ex is_succeeded ?rs"
    by (auto simp: n_succeeded_def filter_empty_conv list_ex_iff)
  have ret: "paste sh self w destination dflt
       = Returned (list_ex is_succeeded ?rs)
           (clipboard_after (paste sh self w destination dflt)) (world_left w ?rs)"
    using paste_outcome [OF assms(1,2), of sh dflt] assms(3) flag by simp
  have "\<not> is_succeeded r" if "is_skipped r" for r
    using that by (cases r) simp_all
  then have "\<not> list_ex is_succeeded ?rs" if "\<forall>r\<in>set ?rs. is_skipped r"
    using that by (auto simp: list_ex_iff)
  with ret show ?thesis
    by auto
qed

text \<open>
  Two runs with the default action SKIP. Copying both files skips the report,
  which conflicts, and copies the notes: the flag is true. Copying the report
  alone skips the only entry: the flag is false.
\<close>

theorem paste_success_iff_entry_succeeded_witness:
  "passes_validation staged_copy (sample_world []) ''/dst''
   \<and> paste ref_shutil staged_copy (sample_world []) ''/dst'' (Some SKIP)
       = Returned True staged_copy \<lparr>fsys = notes_copied_fs, stdin = []\<rparr>
   \<and> list_all is_skipped
       (entry_outcomes ref_shutil COPY (Path_of ''/dst'') (Some SKIP)
          [Path True [''src'', ''report.txt'']] (sample_world []))
   \<and> paste ref_shutil
        \<lparr>clipboard = [Path True [''src'', ''report.txt'']], operation_type = Some COPY\<rparr>
        (sample_world []) ''/dst'' (Some SKIP)
       = Returned False
           \<lparr>clipboard = [Path True [''src'', ''report.txt'']], operation_type = Some COPY\<rparr>
           (sample_world [])"
proof -
  let ?one = "\<lparr>clipboard = [Path True [''src'', ''report.txt'']], operation_type = Some COPY\<rparr>"
  have v: "passes_validation staged_copy (sample_world []) ''/dst''"
    by code_simp
  have o: "operation_type staged_copy = Some COPY"
    by (simp add: staged_copy_def)
  have s: "list_ex is_succeeded
       (entry_outcomes ref_shutil COPY (Path_of ''/dst'') (Some SKIP) (clipboard staged_copy)
          (sample_world []))"
    by code_simp
  have a: "clipboard_after (paste ref_shutil staged_copy (sample_world []) ''/dst'' (Some SKIP))
             = staged_copy"
    by code_simp
  have l: "world_left (sample_world [])
       (entry_outcomes ref_shutil COPY (Path_of ''/dst'') (Some SKIP) (clipboard staged_copy)
          (sample_world []))
       = \<lparr>fsys = notes_copied_fs, stdin = []\<rparr>"
    by code_simp
  have v1: "passes_validation ?one (sample_world []) ''/dst''"
    by code_simp
  have k1: "\<forall>r\<in>set (entry_outcomes ref_shutil COPY (Path_of ''/dst'') (Some SKIP) (clipboard ?one)
                      (sample_world [])). is_skipped r"
    by code_simp
  have a1: "clipboard_after (paste ref_shutil ?one (sample_world []) ''/dst'' (Some SKIP)) = ?one"
    by code_simp
  have l1: "world_left (sample_world [])
       (entry_outcomes ref_shutil COPY (Path_of ''/dst'') (Some SKIP) (clipboard ?one)
          (sample_world []))
       = sample_world []"
    by code_simp
  have o1: "operation_type ?one = Some COPY"
    by simp
  have "paste ref_shutil staged_copy (sample_world []) ''/dst'' (Some SKIP)
       = Returned
           (list_ex is_succeeded
              (entry_outcomes ref_shutil COPY (Path_of ''/dst'') (Some SKIP)
                 (clipboard staged_copy) (sample_world [])))
           (clipboard_after (paste ref_shutil staged_copy (sample_world []) ''/dst'' (Some SKIP)))
           (world_left (sample_world [])
              (entry_outcomes ref_shutil COPY (Path_of ''/dst'') (Some SKIP)
                 (clipboard staged_copy) (sample_world [])))"
    by (rule paste_success_iff_entry_succeeded
               [OF v o default_action_never_cancels, THEN conjunct1])
  with s have two: "paste ref_shutil staged_copy (sample_world []) ''/dst'' (Some SKIP)
       = Returned True staged_copy \<lparr>fsys = notes_copied_fs, stdin = []\<rparr>"
    by (simp only: a l simp_thms)
  have "paste ref_shutil ?one (sample_world []) ''/dst'' (Some SKIP)
       = Returned False
           (clipboard_after (paste ref_shutil ?one (sample_world []) ''/dst'' (Some SKIP)))
           (world_left (sample_world [])
              (entry_outcomes ref_shutil COPY (Path_of ''/dst'') (Some SKIP)
                 (clipboard ?one) (sample_world [])))"
    by (rule paste_success_iff_entry_succeeded
               [OF v1 o1 default_action_never_cancels, THEN conjunct2, THEN mp, OF k1])
  then have one: "paste ref_shutil ?one (sample_world []) ''/dst'' (Some SKIP)
       = Returned False ?one (sample_world [])"
    by (simp only: a1 l1)
  from v two one k1 show ?thesis
    by (simp add: list_all_iff)
qed

text \<open>
  C3 as it is written fails. The only entry reached conflicts and the user
  interrupts the prompt: the call passed validation and no entry succeeded, yet
  it does not report failure; it returns no flag, and the program ends with the
  status of success.
\<close>

theorem cancelled_paste_reports_no_failure:
  "passes_validation staged_copy (sample_world [Interrupt]) ''/dst''
   \<and> \<not> list_ex is_succeeded
         (entry_outcomes ref_shutil COPY (Path_of ''/dst'') None (clipboard staged_copy)
            (sample_world [Interrupt]))
   \<and> paste ref_shutil staged_copy (sample_world [Interrupt]) ''/dst'' None
       = Exited 0 staged_copy (sample_world [])
   \<and> exit_code (paste ref_shutil staged_copy (sample_world [Interrupt]) ''/dst'' None) = 0"
  by code_simp

text \<open>
  C2, as amended. \<open>paste\<close> returns its flag only, and its summary has two counts,
  succeeded and failed. An entry whose conflict is resolved as SKIP adds to
  neither and changes nothing in the file system: the loop goes on with both
  counters and the files as they were (only the input read by the prompt is
  used up).
\<close>

theorem skip_counts_nowhere_and_changes_no_file:
  assumes "exists (fsys w) (joinpath dest_path (name source_path))"
      and "resolve dflt (stdin w) = (Returns SKIP, inp)"
  shows "process_entry sh op dest_path dflt source_path w = Skipped (w\<lparr>stdin := inp\<rparr>)
       \<and> fsys (world_after (process_entry sh op dest_path dflt source_path w)) = fsys w
       \<and> paste_loop sh op dest_path dflt (source_path # rest) success_count failed_count w
           = paste_loop sh op dest_path dflt rest success_count failed_count (w\<lparr>stdin := inp\<rparr>)"
  using skipped_step [OF assms] by simp

theorem skip_counts_nowhere_and_changes_no_file_witness:
  "resolve None [Line ''s''] = (Returns SKIP, [])
   \<and> process_entry ref_shutil CUT (Path_of ''/dst'') None (Path True [''src'', ''report.txt''])
        (sample_world [Line ''s''])
       = Skipped (sample_world [])
   \<and> paste_loop ref_shutil CUT (Path_of ''/dst'') None [Path True [''src'', ''report.txt'']] 3 1
        (sample_world [Line ''s''])
       = Done 3 1 (sample_world [])"
proof -
  have e: "exists (fsys (sample_world [Line ''s'']))
             (joinpath (Path_of ''/dst'') (name (Path True [''src'', ''report.txt''])))"
    by code_simp
  have r: "resolve None (stdin (sample_world [Line ''s''])) = (Returns SKIP, [])"
    by code_simp
  from skip_counts_nowhere_and_changes_no_file [OF e r, of ref_shutil CUT "[]" 3 1] r
  show ?thesis
    by (simp add: sample_world_def)
qed

text \<open>
  C2 as it is written fails: after a batch whose only entry was skipped, the
  two counts of the summary are both 0; no count records the skip.
\<close>

theorem paste_summary_has_no_skipped_count:
  "n_skipped (entry_outcomes ref_shutil COPY (Path_of ''/dst'') (Some SKIP)
      [Path True [''src'', ''report.txt'']] (sample_world [])) = 1
   \<and> paste_loop ref_shutil COPY (Path_of ''/dst'') (Some SKIP)
      [Path True [''src'', ''report.txt'']] 0 0 (sample_world []) = Done 0 0 (sample_world [])"
  by code_simp

subsection \<open>The invariant of the clipboard\<close>

text \<open>
  C8, as amended. The invariant (no intent exactly when no paths) holds at the
  start and is kept by \<open>clear\<close>, by \<open>paste\<close> however it ends, and by \<open>copy\<close> and \<open>cut\<close>
  when they are given a non-empty list of paths, as the command line always
  gives them.
\<close>

theorem clipboard_invariant_preserved:
  "clipboard_invariant init
   \<and> (clipboard_invariant self \<longrightarrow> clipboard_invariant (clear_clipboard self))
   \<and> (clipboard_invariant self \<and> paths \<noteq> [] \<longrightarrow>
        clipboard_invariant (snd (copy f self paths))
        \<and> clipboard_invariant (snd (cut f self paths)))
   \<and> (clipboard_invariant self \<longrightarrow>
        clipboard_invariant (clipboard_after (paste sh self w destination dflt)))"
proof -
  have "clipboard_invariant (snd (copy f self paths))
        \<and> clipboard_invariant (snd (cut f self paths))"
    if "clipboard_invariant self" "paths \<noteq> []"
    using that
    by (auto simp: copy_def cut_def clipboard_invariant_def split: option.splits
             dest: validate_Some)
  moreover have "clipboard_invariant (clipboard_after (paste sh self w destination dflt))"
    if "clipboard_invariant self"
    using that
    by (auto simp: paste_def clipboard_invariant_def Let_def
             split: option.splits loop_result.splits)
  ultimately show ?thesis
    by (simp add: clipboard_invariant_def init_def clear_clipboard_def)
qed

theorem clipboard_invariant_preserved_witness:
  "clipboard_invariant staged_cut
   \<and> clipboard_invariant (clear_clipboard staged_cut)
   \<and> clipboard_invariant (snd (copy sample_fs staged_cut [''notes.txt'']))
   \<and> clipboard_invariant (snd (cut sample_fs staged_cut [''missing.txt'']))
   \<and> clipboard_invariant
       (clipboard_after
          (paste ref_shutil staged_cut (sample_world [Line ''x'', Line '' k  '']) ''/dst'' None))"
proof -
  have i: "clipboard_invariant staged_cut"
    by code_simp
  from clipboard_invariant_preserved
    [where self = staged_cut and paths = "[''notes.txt'']" and f = sample_fs
       and sh = ref_shutil and w = "sample_world [Line ''x'', Line '' k  '']"
       and destination = "''/dst''" and dflt = None]
    clipboard_invariant_preserved
    [where self = staged_cut and paths = "[''missing.txt'']" and f = sample_fs]
    i
  show ?thesis
    by simp
qed

text \<open>
  C8 as it is written fails: \<open>copy\<close> on the empty list succeeds and leaves the
  intent COPY on an empty clipboard.
\<close>

theorem copy_empty_list_breaks_invariant:
  "clipboard_invariant init
   \<and> copy sample_fs init [] = (True, \<lparr>clipboard = [], operation_type = Some COPY\<rparr>)
   \<and> \<not> clipboard_invariant (snd (copy sample_fs init []))"
  by code_simp

subsection \<open>The command line\<close>

text \<open>
  Under \<open>main\<close> the clipboard is new in every run, so the command \<open>paste\<close> stops
  at its first check and exits with 1; the prompt is reached only by a caller
  that keeps one \<open>FileOperations\<close> object across \<open>copy\<close> or \<open>cut\<close> and \<open>paste\<close>.
\<close>

lemma main_paste_clipboard_empty:
  assumes "3 \<le> length argv" and "lower (argv ! 1) = ''paste''"
  shows "main sh argv w = (1, w)"
  using assms by (simp add: main_def paste_def init_def exit_code_def)

end
